theory Spec2Isabelle
  imports Main "HOL-Library.Char_ord"
begin

section \<open>The routing table: proxy/proxy.go\<close>

text \<open>
  The Go standard library is not part of the repository. What the code asks of it is
  made explicit:
  \<^item> \<open>url.Parse\<close> is a parameter \<open>url_Parse\<close> of \<open>NewService\<close>, returning the
    parse error (\<open>Inl\<close>) or the parsed URL (\<open>Inr\<close>);
  \<^item> \<open>http.ServeMux\<close> is the list of the patterns a handler was installed for, in
    the order of the calls of \<open>HandleFunc\<close>. \<open>HandleFunc\<close> panics on a
    pattern the mux rejects (the empty pattern and a pattern registered twice in every
    Go version, more in later ones); which patterns it rejects is the parameter
    \<open>rejects\<close>;
  \<open>sync.RWMutex\<close> makes every operation atomic: the operations are state
  transformers on the record \<open>RuntimeMux\<close>. A \<open>*Service\<close> is a
  \<open>Service option\<close>, \<open>None\<close> the nil pointer.
\<close>

record 'u Service =
  Name :: string
  ReverseProxy :: "'u option"
  Path :: string
  Url :: string

text \<open>
  The one error the package builds is \<open>errors.New("Service URL invalid" + err.Error())\<close>
  in \<open>NewService\<close>, from the error \<open>err\<close> of \<open>url.Parse\<close>.
\<close>

datatype 'e error = Service_URL_invalid 'e

text \<open>How a call ends: it returns a value, or it panics.\<close>

datatype 'a outcome = Returned 'a | Panicked

definition NewService ::
  "(string \<Rightarrow> 'e + 'u) \<Rightarrow> string \<Rightarrow> string \<Rightarrow> string \<Rightarrow> 'e error + 'u Service" where
  "NewService url_Parse name Path' Url' =
     (case url_Parse Url' of
        Inl err \<Rightarrow> Inl (Service_URL_invalid err)
      | Inr ServiceURL \<Rightarrow>
          Inr \<lparr>Name = name, ReverseProxy = Some ServiceURL, Path = Path', Url = Url'\<rparr>)"

record Request =
  URL_Path :: string

text \<open>
  An \<open>http.ResponseWriter\<close>: \<open>Write\<close> sends the header with status 200 first
  when no header was written yet, then appends to the body.
\<close>

record ResponseWriter =
  wroteHeader :: bool
  status :: nat
  body :: string

definition Write :: "ResponseWriter \<Rightarrow> string \<Rightarrow> ResponseWriter" where
  "Write w b =
     (if wroteHeader w then w\<lparr>body := body w @ b\<rparr>
      else w\<lparr>wroteHeader := True, status := 200, body := body w @ b\<rparr>)"

text \<open>
  What serving one request comes to: the request is handed to the forwarder bound to a
  target URL, or a response is written locally, or the handler panics (a nil
  \<open>*httputil.ReverseProxy\<close> embedded in the \<open>Service\<close>).
\<close>

datatype 'u served =
    Forwarded 'u ResponseWriter Request
  | Responded ResponseWriter
  | Handler_panicked

type_synonym 'u HandlerFunc = "ResponseWriter \<Rightarrow> Request \<Rightarrow> 'u served"

definition Service_ServeHTTP :: "'u Service \<Rightarrow> 'u HandlerFunc" where
  "Service_ServeHTTP s w r =
     (case ReverseProxy s of
        None \<Rightarrow> Handler_panicked
      | Some target \<Rightarrow> Forwarded target w r)"

record 'u RuntimeMux =
  mux :: "string list"
  proxyServers :: "string \<Rightarrow> 'u Service option option"
  FallbackHandler :: "'u HandlerFunc"

definition NewRuntimeMux :: "'u RuntimeMux" where
  "NewRuntimeMux =
     \<lparr>mux = [],
      proxyServers = Map.empty,
      FallbackHandler = (\<lambda>w r. Responded (Write w (''fallback: Path not found'' @ URL_Path r)))\<rparr>"

definition HandleFunc ::
  "(string list \<Rightarrow> string \<Rightarrow> bool) \<Rightarrow> string list \<Rightarrow> string \<Rightarrow> string list option" where
  "HandleFunc rejects m pattern = (if rejects m pattern then None else Some (m @ [pattern]))"

text \<open>
  The closure \<open>AddProxy\<close> installs for \<open>path\<close>. It reads the table of the state
  the request meets, not of the state the closure was installed in.
\<close>

definition dispatch :: "'u RuntimeMux \<Rightarrow> string \<Rightarrow> 'u HandlerFunc" where
  "dispatch ph path w r =
     (case proxyServers ph path of
        None \<Rightarrow> FallbackHandler ph w r
      | Some None \<Rightarrow> FallbackHandler ph w r
      | Some (Some service) \<Rightarrow> Service_ServeHTTP service w r)"

definition AddProxy ::
  "(string list \<Rightarrow> string \<Rightarrow> bool) \<Rightarrow> 'u RuntimeMux \<Rightarrow> 'u Service option
     \<Rightarrow> 'e error option outcome \<times> 'u RuntimeMux" where
  "AddProxy rejects ph Service =
     (case Service of
        None \<Rightarrow> (Panicked, ph)
      | Some s \<Rightarrow>
          (let exists = (proxyServers ph (Path s) \<noteq> None);
               ph1 = ph\<lparr>proxyServers := (proxyServers ph)(Path s \<mapsto> Some s)\<rparr>;
               path = Path s
           in if \<not> exists then
                (case HandleFunc rejects (mux ph1) path of
                   None \<Rightarrow> (Panicked, ph1)
                 | Some m \<Rightarrow> (Returned None, ph1\<lparr>mux := m\<rparr>))
              else (Returned None, ph1)))"

definition removeHandler :: "'u RuntimeMux \<Rightarrow> 'u Service option \<Rightarrow> unit outcome \<times> 'u RuntimeMux" where
  "removeHandler ph Service =
     (case Service of
        None \<Rightarrow> (Panicked, ph)
      | Some s \<Rightarrow> (Returned (), ph\<lparr>proxyServers := (proxyServers ph)(Path s \<mapsto> None)\<rparr>))"

text \<open>
  The \<open>add\<close> branch of \<open>CLI\<close>; \<open>args\<close> are the fields of the line, the first of
  them \<open>add\<close>. What the branch prints is the value \<open>cli_out\<close>.
\<close>

datatype 'e cli_out =
    Usage_add
  | Error_creating_service "'e error"
  | Error_adding_proxy "'e error"
  | Added_service string string

definition CLI_add ::
  "(string \<Rightarrow> 'e + 'u) \<Rightarrow> (string list \<Rightarrow> string \<Rightarrow> bool) \<Rightarrow> 'u RuntimeMux \<Rightarrow> string list
     \<Rightarrow> 'e cli_out outcome \<times> 'u RuntimeMux" where
  "CLI_add url_Parse rejects ph args =
     (if length args \<noteq> 4 then (Returned Usage_add, ph)
      else
        (case NewService url_Parse (args ! 1) (args ! 2) (args ! 3) of
           Inl err \<Rightarrow> (Returned (Error_creating_service err), ph)
         | Inr service \<Rightarrow>
             (case AddProxy rejects ph (Some service) of
                (Panicked, ph') \<Rightarrow> (Panicked, ph')
              | (Returned (Some err), ph') \<Rightarrow> (Returned (Error_adding_proxy err), ph')
              | (Returned None, ph') \<Rightarrow> (Returned (Added_service (args ! 1) (args ! 2)), ph'))))"

text \<open>
  The \<open>remove\<close> branch of \<open>CLI\<close>. It calls \<open>removeHandler\<close> only for a path
  that is a key of the table, with the entry it finds there, which is nil once the path
  was removed.
\<close>

datatype remove_out =
    Usage_remove
  | Removed_service string
  | No_service_found string

definition CLI_remove :: "'u RuntimeMux \<Rightarrow> string list \<Rightarrow> remove_out outcome \<times> 'u RuntimeMux" where
  "CLI_remove ph args =
     (if length args \<noteq> 2 then (Returned Usage_remove, ph)
      else
        (case proxyServers ph (args ! 1) of
           Some service \<Rightarrow>
             (case removeHandler ph service of
                (Panicked, ph') \<Rightarrow> (Panicked, ph')
              | (Returned u, ph') \<Rightarrow> (Returned (Removed_service (args ! 1)), ph'))
         | None \<Rightarrow> (Returned (No_service_found (args ! 1)), ph)))"

text \<open>
  Sequences of registrations and deregistrations. A panic is recovered by the caller or
  ends the process; the sequence goes on from the state the panic left, which covers
  both.
\<close>

datatype 'u table_op = Add "'u Service option" | Remove "'u Service option"

fun apply_op :: "(string list \<Rightarrow> string \<Rightarrow> bool) \<Rightarrow> 'u RuntimeMux \<Rightarrow> 'u table_op \<Rightarrow> 'u RuntimeMux" where
  "apply_op rejects ph (Add s) = snd (AddProxy rejects ph s :: unit error option outcome \<times> 'u RuntimeMux)"
| "apply_op rejects ph (Remove s) = snd (removeHandler ph s)"

fun apply_ops :: "(string list \<Rightarrow> string \<Rightarrow> bool) \<Rightarrow> 'u RuntimeMux \<Rightarrow> 'u table_op list \<Rightarrow> 'u RuntimeMux" where
  "apply_ops rejects ph [] = ph"
| "apply_ops rejects ph (x # xs) = apply_ops rejects (apply_op rejects ph x) xs"

text \<open>
  The pre-1.22 \<open>ServeMux\<close>, whose \<open>HandleFunc\<close> panics on the empty pattern and on
  a pattern that is registered already, and on nothing else.
\<close>

definition mux_rejects :: "string list \<Rightarrow> string \<Rightarrow> bool" where
  "mux_rejects m pattern = (pattern = [] \<or> pattern \<in> set m)"

section \<open>The certificate store: package ssl\<close>

text \<open>
  \<open>tls.LoadX509KeyPair\<close> and \<open>x509.ParseCertificate\<close> belong to the Go standard
  library and read the disk: they are the parameters \<open>LoadX509KeyPair\<close> and
  \<open>ParseCertificate\<close> of \<open>loadCertificate\<close>, returning the text of their error
  (\<open>Inl\<close>) or their value (\<open>Inr\<close>). An error of this package is the text
  \<open>fmt.Errorf\<close> builds. A \<open>tls.Certificate\<close> is its chain of DER blocks, the
  leaf first, and its key. The TLS stack never passes a nil \<open>ClientHelloInfo\<close>,
  and \<open>loadCertificate\<close> never stores a nil certificate.
\<close>

record tls_Certificate =
  Certificate :: "string list"
  PrivateKey :: string

record x509_Certificate =
  DNSNames :: "string list"
  Subject_CommonName :: string

record ClientHelloInfo =
  ServerName :: string

record CertManager =
  certs :: "string \<rightharpoonup> tls_Certificate"
  certFile :: string
  keyFile :: string

definition loadCertificate ::
  "(string \<Rightarrow> string \<Rightarrow> string + tls_Certificate) \<Rightarrow> (string \<Rightarrow> string + x509_Certificate)
     \<Rightarrow> CertManager \<Rightarrow> string option \<times> CertManager" where
  "loadCertificate LoadX509KeyPair ParseCertificate cm =
     (case LoadX509KeyPair (certFile cm) (keyFile cm) of
        Inl err \<Rightarrow> (Some (''failed to load certificate: '' @ err), cm)
      | Inr cert \<Rightarrow>
          if length (Certificate cert) > 0 then
            (case ParseCertificate (Certificate cert ! 0) of
               Inl err \<Rightarrow> (Some (''failed to parse certificate: '' @ err), cm)
             | Inr x509Cert \<Rightarrow>
                 (let domain =
                        (if length (DNSNames x509Cert) > 0 then DNSNames x509Cert ! 0
                         else Subject_CommonName x509Cert)
                  in (None, cm\<lparr>certs := (certs cm)(domain \<mapsto> cert)\<rparr>)))
          else (None, cm))"

definition NewCertManager ::
  "(string \<Rightarrow> string \<Rightarrow> string + tls_Certificate) \<Rightarrow> (string \<Rightarrow> string + x509_Certificate)
     \<Rightarrow> string \<Rightarrow> string \<Rightarrow> string + CertManager" where
  "NewCertManager LoadX509KeyPair ParseCertificate certFile' keyFile' =
     (case loadCertificate LoadX509KeyPair ParseCertificate
             \<lparr>certs = Map.empty, certFile = certFile', keyFile = keyFile'\<rparr> of
        (Some err, cm) \<Rightarrow> Inl (''failed to load initial certificate: '' @ err)
      | (None, cm) \<Rightarrow> Inr cm)"

text \<open>
  Go leaves the order in which \<open>range\<close> visits a map unspecified, and varies it from
  one loop to the next. The order the loop of \<open>GetCertificate\<close> takes is its argument
  \<open>iter\<close>, an enumeration of the keys of the map; the loop returns at the first key
  it visits.
\<close>

definition iteration_order :: "('k \<rightharpoonup> 'v) \<Rightarrow> 'k list \<Rightarrow> bool" where
  "iteration_order m iter = (distinct iter \<and> set iter = dom m)"

definition range_first :: "('k \<rightharpoonup> 'v) \<Rightarrow> 'k list \<Rightarrow> 'v option" where
  "range_first m iter =
     (case filter (\<lambda>k. m k \<noteq> None) iter of
        [] \<Rightarrow> None
      | k # _ \<Rightarrow> m k)"

definition GetCertificate ::
  "string list \<Rightarrow> CertManager \<Rightarrow> ClientHelloInfo \<Rightarrow> string + tls_Certificate" where
  "GetCertificate iter cm clientHello =
     (case certs cm (ServerName clientHello) of
        Some cert \<Rightarrow> Inr cert
      | None \<Rightarrow>
          (case range_first (certs cm) iter of
             Some cert \<Rightarrow> Inr cert
           | None \<Rightarrow> Inl (''no certificate found for '' @ ServerName clientHello)))"

section \<open>\<open>url.Parse\<close> of the Go standard library\<close>

text \<open>
  \<open>NewService\<close> accepts a URL when \<open>url.Parse\<close> does. To run \<open>NewService\<close> on
  concrete URLs, this section follows \<open>Parse\<close> of package \<open>net/url\<close> (as of
  go1.22) function by function: \<open>getScheme\<close>, \<open>shouldEscape\<close>, \<open>unescape\<close>,
  \<open>escape\<close>, \<open>validUserinfo\<close>, \<open>validOptionalPort\<close>, \<open>parseHost\<close>,
  \<open>parseAuthority\<close>, \<open>setPath\<close>, \<open>setFragment\<close>, \<open>parse\<close> (called with
  \<open>viaRequest = false\<close>; \<open>parse_rest\<close> is its part after the query is cut off) and
  \<open>Parse\<close>, here \<open>net_url_Parse\<close>. A Go string is its bytes, a \<open>char list\<close>. The
  errors are the values of \<open>url_err\<close>, wrapped by \<open>Parse\<close> in an \<open>Error\<close> with
  the operation and the URL. The theorems about \<open>NewService\<close> and \<open>CLI_add\<close> hold
  for every parser; only their concrete instances use this one.
\<close>

datatype url_err =
    Invalid_control_character
  | Missing_protocol_scheme
  | First_path_segment_colon
  | Missing_bracket_in_host
  | Invalid_port string
  | Invalid_userinfo
  | EscapeError string
  | InvalidHostError string

datatype url_Error = Error string string url_err

record Userinfo =
  username :: string
  password :: string
  passwordSet :: bool

record URL =
  url_Scheme :: string
  url_Opaque :: string
  url_User :: "Userinfo option"
  url_Host :: string
  url_Path :: string
  url_RawPath :: string
  url_OmitHost :: bool
  url_ForceQuery :: bool
  url_RawQuery :: string
  url_Fragment :: string
  url_RawFragment :: string

datatype encoding =
    encodePath
  | encodePathSegment
  | encodeHost
  | encodeZone
  | encodeUserPassword
  | encodeQueryComponent
  | encodeFragment

text \<open>
  \<open>strings.HasPrefix\<close>, \<open>strings.Cut\<close> at a byte (the parts before and after the
  first separator), \<open>strings.Index\<close>, \<open>strings.LastIndex\<close> of a byte, and
  \<open>strings.ToLower\<close> on the ASCII letters a scheme is made of.
\<close>

definition HasPrefix :: "string \<Rightarrow> string \<Rightarrow> bool" where
  "HasPrefix s p = (take (length p) s = p)"

definition Cut_before :: "string \<Rightarrow> char \<Rightarrow> string" where
  "Cut_before s sep = takeWhile (\<lambda>c. c \<noteq> sep) s"

definition Cut_after :: "string \<Rightarrow> char \<Rightarrow> string" where
  "Cut_after s sep = drop 1 (dropWhile (\<lambda>c. c \<noteq> sep) s)"

fun Index :: "string \<Rightarrow> string \<Rightarrow> nat option" where
  "Index [] sub = (if sub = [] then Some 0 else None)"
| "Index (c # s) sub =
     (if HasPrefix (c # s) sub then Some 0 else map_option Suc (Index s sub))"

definition LastIndexByte :: "string \<Rightarrow> char \<Rightarrow> nat option" where
  "LastIndexByte s c =
     (if c \<in> set s then Some (length s - 1 - length (takeWhile (\<lambda>x. x \<noteq> c) (rev s)))
      else None)"

definition within :: "char \<Rightarrow> char \<Rightarrow> char \<Rightarrow> bool" where
  "within lo hi c = (lo \<le> c \<and> c \<le> hi)"

definition ToLower :: "string \<Rightarrow> string" where
  "ToLower s =
     map (\<lambda>c. if within CHR ''A'' CHR ''Z'' c then char_of (of_char c + (32::nat)) else c) s"

definition stringContainsCTLByte :: "string \<Rightarrow> bool" where
  "stringContainsCTLByte s = list_ex (\<lambda>b. b < CHR '' '' \<or> b = CHR 0x7F) s"

definition is_alpha :: "char \<Rightarrow> bool" where
  "is_alpha c = (within CHR ''a'' CHR ''z'' c \<or> within CHR ''A'' CHR ''Z'' c)"

definition is_digit :: "char \<Rightarrow> bool" where
  "is_digit c = within CHR ''0'' CHR ''9'' c"

text \<open>
  The loop of \<open>getScheme\<close> over the index \<open>i\<close>: \<open>seen\<close> is \<open>rawURL[:i]\<close>, so
  \<open>i == 0\<close> is \<open>seen = []\<close>.
\<close>

fun getScheme_loop :: "string \<Rightarrow> string \<Rightarrow> string \<Rightarrow> url_err + string \<times> string" where
  "getScheme_loop rawURL seen [] = Inr ([], rawURL)"
| "getScheme_loop rawURL seen (c # cs) =
     (if is_alpha c then getScheme_loop rawURL (seen @ [c]) cs
      else if is_digit c \<or> c = CHR ''+'' \<or> c = CHR ''-'' \<or> c = CHR ''.'' then
        (if seen = [] then Inr ([], rawURL) else getScheme_loop rawURL (seen @ [c]) cs)
      else if c = CHR '':'' then
        (if seen = [] then Inl Missing_protocol_scheme else Inr (seen, cs))
      else Inr ([], rawURL))"

definition getScheme :: "string \<Rightarrow> url_err + string \<times> string" where
  "getScheme rawURL = getScheme_loop rawURL [] rawURL"

definition ishex :: "char \<Rightarrow> bool" where
  "ishex c = (is_digit c \<or> within CHR ''a'' CHR ''f'' c \<or> within CHR ''A'' CHR ''F'' c)"

definition unhex :: "char \<Rightarrow> nat" where
  "unhex c =
     (if is_digit c then of_char c - of_char CHR ''0''
      else if within CHR ''a'' CHR ''f'' c then of_char c - of_char CHR ''a'' + 10
      else if within CHR ''A'' CHR ''F'' c then of_char c - of_char CHR ''A'' + 10
      else 0)"

definition shouldEscape :: "char \<Rightarrow> encoding \<Rightarrow> bool" where
  "shouldEscape c mode =
     (if is_alpha c \<or> is_digit c then False
      else if (mode = encodeHost \<or> mode = encodeZone) \<and> c \<in> set ''!$&'()*+,;=:[]<>\"'' then False
      else if c \<in> set ''-_.~'' then False
      else if c \<in> set ''$&+,/:;=?@'' \<and> mode = encodePath then c = CHR ''?''
      else if c \<in> set ''$&+,/:;=?@'' \<and> mode = encodePathSegment then
        c = CHR ''/'' \<or> c = CHR '';'' \<or> c = CHR '','' \<or> c = CHR ''?''
      else if c \<in> set ''$&+,/:;=?@'' \<and> mode = encodeUserPassword then
        c = CHR ''@'' \<or> c = CHR ''/'' \<or> c = CHR ''?'' \<or> c = CHR '':''
      else if c \<in> set ''$&+,/:;=?@'' \<and> mode = encodeQueryComponent then True
      else if c \<in> set ''$&+,/:;=?@'' \<and> mode = encodeFragment then False
      else if mode = encodeFragment \<and> c \<in> set ''!()*'' then False
      else True)"

text \<open>
  \<open>unescape\<close> returns the first malformed escape or invalid host byte it meets, else
  the decoded string.
\<close>

fun unescape :: "encoding \<Rightarrow> string \<Rightarrow> url_err + string" where
  "unescape mode [] = Inr []"
| "unescape mode (c # cs) =
     (if c = CHR ''%'' then
        (case cs of
           h1 # h2 # rest \<Rightarrow>
             if \<not> ishex h1 \<or> \<not> ishex h2 then Inl (EscapeError (take 3 (c # cs)))
             else if mode = encodeHost \<and> unhex h1 < 8 \<and> [c, h1, h2] \<noteq> ''%25'' then
               Inl (EscapeError [c, h1, h2])
             else if mode = encodeZone \<and> [c, h1, h2] \<noteq> ''%25''
                     \<and> char_of (unhex h1 * 16 + unhex h2) \<noteq> CHR '' ''
                     \<and> shouldEscape (char_of (unhex h1 * 16 + unhex h2)) encodeHost then
               Inl (EscapeError [c, h1, h2])
             else
               (case unescape mode rest of
                  Inl err \<Rightarrow> Inl err
                | Inr t \<Rightarrow> Inr (char_of (unhex h1 * 16 + unhex h2) # t))
         | _ \<Rightarrow> Inl (EscapeError (take 3 (c # cs))))
      else if (mode = encodeHost \<or> mode = encodeZone) \<and> c \<noteq> CHR ''+'' \<and> c < CHR 0x80
              \<and> shouldEscape c encodeHost then
        Inl (InvalidHostError [c])
      else
        (case unescape mode cs of
           Inl err \<Rightarrow> Inl err
         | Inr t \<Rightarrow>
             Inr ((if c = CHR ''+'' \<and> mode = encodeQueryComponent then CHR '' '' else c) # t)))"

definition escape :: "string \<Rightarrow> encoding \<Rightarrow> string" where
  "escape s mode =
     concat (map (\<lambda>c.
        if shouldEscape c mode then
          (if c = CHR '' '' \<and> mode = encodeQueryComponent then ''+''
           else [CHR ''%'', ''0123456789ABCDEF'' ! (of_char c div 16),
                 ''0123456789ABCDEF'' ! (of_char c mod 16)])
        else [c]) s)"

definition validUserinfo :: "string \<Rightarrow> bool" where
  "validUserinfo s =
     list_all (\<lambda>r. is_alpha r \<or> is_digit r \<or> r \<in> set ''-._:~!$&'()*+,;=%@'') s"

definition validOptionalPort :: "string \<Rightarrow> bool" where
  "validOptionalPort port =
     (case port of
        [] \<Rightarrow> True
      | c # digits \<Rightarrow> c = CHR '':'' \<and> list_all is_digit digits)"

definition parseHost :: "string \<Rightarrow> url_err + string" where
  "parseHost host =
     (if HasPrefix host ''['' then
        (case LastIndexByte host CHR '']'' of
           None \<Rightarrow> Inl Missing_bracket_in_host
         | Some i \<Rightarrow>
             if \<not> validOptionalPort (drop (i + 1) host) then Inl (Invalid_port (drop (i + 1) host))
             else
               (case Index (take i host) ''%25'' of
                  Some zone \<Rightarrow>
                    (case unescape encodeHost (take zone host) of
                       Inl err \<Rightarrow> Inl err
                     | Inr host1 \<Rightarrow>
                         (case unescape encodeZone (drop zone (take i host)) of
                            Inl err \<Rightarrow> Inl err
                          | Inr host2 \<Rightarrow>
                              (case unescape encodeHost (drop i host) of
                                 Inl err \<Rightarrow> Inl err
                               | Inr host3 \<Rightarrow> Inr (host1 @ host2 @ host3))))
                | None \<Rightarrow> unescape encodeHost host))
      else
        (case LastIndexByte host CHR '':'' of
           Some i \<Rightarrow>
             if \<not> validOptionalPort (drop i host) then Inl (Invalid_port (drop i host))
             else unescape encodeHost host
         | None \<Rightarrow> unescape encodeHost host))"

definition parseAuthority :: "string \<Rightarrow> url_err + Userinfo option \<times> string" where
  "parseAuthority authority =
     (case LastIndexByte authority CHR ''@'' of
        None \<Rightarrow>
          (case parseHost authority of
             Inl err \<Rightarrow> Inl err
           | Inr host \<Rightarrow> Inr (None, host))
      | Some i \<Rightarrow>
          (case parseHost (drop (i + 1) authority) of
             Inl err \<Rightarrow> Inl err
           | Inr host \<Rightarrow>
               (let userinfo = take i authority in
                if \<not> validUserinfo userinfo then Inl Invalid_userinfo
                else if CHR '':'' \<notin> set userinfo then
                  (case unescape encodeUserPassword userinfo of
                     Inl err \<Rightarrow> Inl err
                   | Inr u \<Rightarrow>
                       Inr (Some \<lparr>username = u, password = [], passwordSet = False\<rparr>, host))
                else
                  (case unescape encodeUserPassword (Cut_before userinfo CHR '':'') of
                     Inl err \<Rightarrow> Inl err
                   | Inr u \<Rightarrow>
                       (case unescape encodeUserPassword (Cut_after userinfo CHR '':'') of
                          Inl err \<Rightarrow> Inl err
                        | Inr p \<Rightarrow>
                            Inr (Some \<lparr>username = u, password = p, passwordSet = True\<rparr>,
                                 host))))))"

definition setPath :: "URL \<Rightarrow> string \<Rightarrow> url_err + URL" where
  "setPath u p =
     (case unescape encodePath p of
        Inl err \<Rightarrow> Inl err
      | Inr path \<Rightarrow>
          Inr (u\<lparr>url_Path := path,
                 url_RawPath := (if p = escape path encodePath then [] else p)\<rparr>))"

definition setFragment :: "URL \<Rightarrow> string \<Rightarrow> url_err + URL" where
  "setFragment u f =
     (case unescape encodeFragment f of
        Inl err \<Rightarrow> Inl err
      | Inr frag \<Rightarrow>
          Inr (u\<lparr>url_Fragment := frag,
                 url_RawFragment := (if f = escape frag encodeFragment then [] else f)\<rparr>))"

definition new_URL :: URL where
  "new_URL = \<lparr>url_Scheme = [], url_Opaque = [], url_User = None, url_Host = [], url_Path = [],
              url_RawPath = [], url_OmitHost = False, url_ForceQuery = False, url_RawQuery = [],
              url_Fragment = [], url_RawFragment = []\<rparr>"

definition parse_rest :: "URL \<Rightarrow> string \<Rightarrow> url_err + URL" where
  "parse_rest url rest =
     (if \<not> HasPrefix rest ''/'' \<and> url_Scheme url \<noteq> [] then Inr (url\<lparr>url_Opaque := rest\<rparr>)
      else if \<not> HasPrefix rest ''/'' \<and> CHR '':'' \<in> set (Cut_before rest CHR ''/'') then
        Inl First_path_segment_colon
      else if (url_Scheme url \<noteq> [] \<or> \<not> HasPrefix rest ''///'') \<and> HasPrefix rest ''//'' then
        (case parseAuthority (Cut_before (drop 2 rest) CHR ''/'') of
           Inl err \<Rightarrow> Inl err
         | Inr (user, host) \<Rightarrow>
             setPath (url\<lparr>url_User := user, url_Host := host\<rparr>)
               (dropWhile (\<lambda>c. c \<noteq> CHR ''/'') (drop 2 rest)))
      else if url_Scheme url \<noteq> [] \<and> HasPrefix rest ''/'' then
        setPath (url\<lparr>url_OmitHost := True\<rparr>) rest
      else setPath url rest)"

definition parse :: "string \<Rightarrow> url_err + URL" where
  "parse rawURL =
     (if stringContainsCTLByte rawURL then Inl Invalid_control_character
      else if rawURL = ''*'' then Inr (new_URL\<lparr>url_Path := ''*''\<rparr>)
      else
        (case getScheme rawURL of
           Inl err \<Rightarrow> Inl err
         | Inr (scheme, rest) \<Rightarrow>
             if rest \<noteq> [] \<and> last rest = CHR ''?'' \<and> count_list rest CHR ''?'' = 1 then
               parse_rest (new_URL\<lparr>url_Scheme := ToLower scheme, url_ForceQuery := True\<rparr>)
                 (butlast rest)
             else
               parse_rest (new_URL\<lparr>url_Scheme := ToLower scheme,
                                    url_RawQuery := Cut_after rest CHR ''?''\<rparr>)
                 (Cut_before rest CHR ''?'')))"

definition net_url_Parse :: "string \<Rightarrow> url_Error + URL" where
  "net_url_Parse rawURL =
     (case parse (Cut_before rawURL CHR ''#'') of
        Inl err \<Rightarrow> Inl (Error ''parse'' (Cut_before rawURL CHR ''#'') err)
      | Inr url \<Rightarrow>
          if Cut_after rawURL CHR ''#'' = [] then Inr url
          else
            (case setFragment url (Cut_after rawURL CHR ''#'') of
               Inl err \<Rightarrow> Inl (Error ''parse'' rawURL err)
             | Inr url' \<Rightarrow> Inr url'))"

text \<open>\<open>URL.IsAbs\<close>: a URL is absolute when it has a scheme.\<close>

definition IsAbs :: "URL \<Rightarrow> bool" where
  "IsAbs u = (url_Scheme u \<noteq> [])"

section \<open>Values of the tests\<close>

text \<open>
  The services of \<open>TestUpdateServiceURL\<close>, both at \<open>/test/\<close> (the forwarder's target
  written as its URL text), a service with an empty path, a \<open>Service\<close> literal with no
  forwarder, a response nothing was written to, and a GET of \<open>/test/\<close>.
\<close>

definition oldService :: "string Service" where
  "oldService = \<lparr>Name = ''test'', ReverseProxy = Some ''http://127.0.0.1:8081'',
                  Path = ''/test/'', Url = ''http://127.0.0.1:8081''\<rparr>"

definition newService :: "string Service" where
  "newService = \<lparr>Name = ''test'', ReverseProxy = Some ''http://127.0.0.1:8082'',
                  Path = ''/test/'', Url = ''http://127.0.0.1:8082''\<rparr>"

definition emptyPathService :: "string Service" where
  "emptyPathService = \<lparr>Name = ''test'', ReverseProxy = Some ''http://127.0.0.1:8081'',
                        Path = [], Url = ''http://127.0.0.1:8081''\<rparr>"

definition noForwarderService :: "string Service" where
  "noForwarderService = \<lparr>Name = ''test'', ReverseProxy = None, Path = ''/test/'', Url = []\<rparr>"

definition freshResponse :: ResponseWriter where
  "freshResponse = \<lparr>wroteHeader = False, status = 0, body = []\<rparr>"

definition getTest :: Request where
  "getTest = \<lparr>URL_Path = ''/test/''\<rparr>"

text \<open>
  The disk of the tests of package \<open>ssl\<close>: \<open>cert.pem\<close> and \<open>key.pem\<close> hold a pair
  for \<open>example.com\<close>, no other file exists; and two more certificates.
\<close>

definition exampleCert :: tls_Certificate where
  "exampleCert = \<lparr>Certificate = [''DER example.com''], PrivateKey = ''key example.com''\<rparr>"

definition certA :: tls_Certificate where
  "certA = \<lparr>Certificate = [''DER a.example.com''], PrivateKey = ''key a''\<rparr>"

definition certB :: tls_Certificate where
  "certB = \<lparr>Certificate = [''DER b.example.com''], PrivateKey = ''key b''\<rparr>"

definition testLoadX509KeyPair :: "string \<Rightarrow> string \<Rightarrow> string + tls_Certificate" where
  "testLoadX509KeyPair certFile' keyFile' =
     (if certFile' = ''cert.pem'' \<and> keyFile' = ''key.pem'' then Inr exampleCert
      else Inl ''no such file or directory'')"

definition testParseCertificate :: "string \<Rightarrow> string + x509_Certificate" where
  "testParseCertificate der =
     (if der = ''DER example.com'' then
        Inr \<lparr>DNSNames = [''example.com''], Subject_CommonName = ''example.com''\<rparr>
      else Inl ''x509: malformed certificate'')"

definition emptyManager :: CertManager where
  "emptyManager = \<lparr>certs = Map.empty, certFile = ''cert.pem'', keyFile = ''key.pem''\<rparr>"

definition loadedManager :: CertManager where
  "loadedManager = \<lparr>certs = [''example.com'' \<mapsto> exampleCert],
                     certFile = ''nonexistent.pem'', keyFile = ''key.pem''\<rparr>"

definition twoCertManager :: CertManager where
  "twoCertManager = \<lparr>certs = [''a.example.com'' \<mapsto> certA, ''b.example.com'' \<mapsto> certB],
                      certFile = ''cert.pem'', keyFile = ''key.pem''\<rparr>"

section \<open>Facts about the routing table\<close>

lemma AddProxy_table:
  "proxyServers (snd (AddProxy rejects ph (Some s))) = (proxyServers ph)(Path s \<mapsto> Some s)"
  by (simp add: AddProxy_def Let_def split: option.split)

lemma AddProxy_result:
  "fst (AddProxy rejects ph so) =
     (case so of
        None \<Rightarrow> Panicked
      | Some s \<Rightarrow>
          if proxyServers ph (Path s) = None \<and> rejects (mux ph) (Path s) then Panicked
          else Returned None)"
  by (simp add: AddProxy_def HandleFunc_def Let_def split: option.split)

lemma AddProxy_mux:
  "mux (snd (AddProxy rejects ph (Some s))) =
     (if proxyServers ph (Path s) = None \<and> \<not> rejects (mux ph) (Path s) then mux ph @ [Path s]
      else mux ph)"
  by (simp add: AddProxy_def HandleFunc_def Let_def split: option.split)

lemma AddProxy_FallbackHandler:
  "FallbackHandler (snd (AddProxy rejects ph so)) = FallbackHandler ph"
  by (simp add: AddProxy_def HandleFunc_def Let_def split: option.split)

lemma removeHandler_table:
  "proxyServers (snd (removeHandler ph (Some s))) = (proxyServers ph)(Path s \<mapsto> None)"
  by (simp add: removeHandler_def)

lemma removeHandler_FallbackHandler:
  "FallbackHandler (snd (removeHandler ph so)) = FallbackHandler ph"
  by (simp add: removeHandler_def split: option.split)

lemma apply_op_Add_table:
  "proxyServers (apply_op rejects ph (Add (Some s))) = (proxyServers ph)(Path s \<mapsto> Some s)"
  by (simp add: AddProxy_table)

lemma apply_op_Add_mux:
  "mux (apply_op rejects ph (Add (Some s))) =
     (if proxyServers ph (Path s) = None \<and> \<not> rejects (mux ph) (Path s) then mux ph @ [Path s]
      else mux ph)"
  by (simp add: AddProxy_mux)

lemma apply_op_keeps_keys: "dom (proxyServers ph) \<subseteq> dom (proxyServers (apply_op rejects ph x))"
proof (cases x)
  case (Add so)
  then show ?thesis
    by (cases so) (auto simp: AddProxy_def [where Service = None] AddProxy_table)
next
  case (Remove so)
  then show ?thesis
    by (cases so) (auto simp: removeHandler_def)
qed

lemma apply_ops_append:
  "apply_ops rejects ph (xs @ ys) = apply_ops rejects (apply_ops rejects ph xs) ys"
  by (induction xs arbitrary: ph) simp_all

lemma apply_ops_snoc:
  "apply_ops rejects ph (xs @ [x]) = apply_op rejects (apply_ops rejects ph xs) x"
  by (simp add: apply_ops_append)

lemma apply_ops_keeps_keys:
  "dom (proxyServers ph) \<subseteq> dom (proxyServers (apply_ops rejects ph xs))"
proof (induction xs arbitrary: ph)
  case Nil
  show ?case by simp
next
  case (Cons x xs)
  have "dom (proxyServers ph) \<subseteq> dom (proxyServers (apply_op rejects ph x))"
    by (rule apply_op_keeps_keys)
  also have "\<dots> \<subseteq> dom (proxyServers (apply_ops rejects (apply_op rejects ph x) xs))"
    by (rule Cons.IH)
  finally show ?case by simp
qed

lemma apply_ops_FallbackHandler:
  "FallbackHandler (apply_ops rejects ph xs) = FallbackHandler ph"
proof (induction xs arbitrary: ph)
  case Nil
  show ?case by simp
next
  case (Cons x xs)
  show ?case
    by (cases x) (simp_all add: Cons.IH AddProxy_FallbackHandler removeHandler_FallbackHandler)
qed

lemma Service_ServeHTTP_inj:
  "(Service_ServeHTTP b1 w r = Service_ServeHTTP b2 w r) = (ReverseProxy b1 = ReverseProxy b2)"
  by (simp add: Service_ServeHTTP_def split: option.split)

lemma dispatch_registered:
  "proxyServers ph path = Some (Some s) \<Longrightarrow> dispatch ph path w r = Service_ServeHTTP s w r"
  by (simp add: dispatch_def)

lemma CLI_remove_unregistered:
  "proxyServers ph path = None \<Longrightarrow>
     CLI_remove ph [''remove'', path] = (Returned (No_service_found path), ph)"
  by (simp add: CLI_remove_def)

lemma parse_calhost:
  "net_url_Parse ''--calhost-:=-8080/''
     = Inl (Error ''parse'' ''--calhost-:=-8080/'' First_path_segment_colon)"
  by code_simp

lemma parse_localhost:
  "net_url_Parse ''localhost'' = Inr (new_URL\<lparr>url_Path := ''localhost''\<rparr>)"
  by code_simp

section \<open>Facts about the certificate store\<close>

lemma loadCertificate_unreadable:
  "LoadX509KeyPair (certFile cm) (keyFile cm) = Inl err \<Longrightarrow>
     loadCertificate LoadX509KeyPair ParseCertificate cm
       = (Some (''failed to load certificate: '' @ err), cm)"
  by (simp add: loadCertificate_def)

lemma loadCertificate_unparsable:
  "LoadX509KeyPair (certFile cm) (keyFile cm) = Inr cert \<Longrightarrow> Certificate cert \<noteq> [] \<Longrightarrow>
   ParseCertificate (Certificate cert ! 0) = Inl err \<Longrightarrow>
     loadCertificate LoadX509KeyPair ParseCertificate cm
       = (Some (''failed to parse certificate: '' @ err), cm)"
  by (simp add: loadCertificate_def)

lemma loadCertificate_loaded:
  "LoadX509KeyPair (certFile cm) (keyFile cm) = Inr cert \<Longrightarrow> Certificate cert \<noteq> [] \<Longrightarrow>
   ParseCertificate (Certificate cert ! 0) = Inr x509Cert \<Longrightarrow>
     loadCertificate LoadX509KeyPair ParseCertificate cm =
       (None, cm\<lparr>certs := (certs cm)((if DNSNames x509Cert \<noteq> [] then DNSNames x509Cert ! 0
                                         else Subject_CommonName x509Cert) \<mapsto> cert)\<rparr>)"
  by (simp add: loadCertificate_def)

lemma range_first_Some:
  assumes "iteration_order m iter" "m \<noteq> Map.empty"
  shows "\<exists>k rest v. iter = k # rest \<and> m k = Some v \<and> range_first m iter = Some v"
proof -
  from assms obtain k rest where iter: "iter = k # rest"
    by (cases iter) (auto simp: iteration_order_def)
  with assms(1) have "k \<in> dom m"
    by (auto simp: iteration_order_def)
  then obtain v where "m k = Some v"
    by blast
  with iter show ?thesis
    by (simp add: range_first_def)
qed

lemma range_first_None:
  assumes "iteration_order m iter"
  shows "(range_first m iter = None) = (m = Map.empty)"
proof
  assume "range_first m iter = None"
  with range_first_Some [OF assms] show "m = Map.empty"
    by fastforce
next
  assume "m = Map.empty"
  then show "range_first m iter = None"
    by (simp add: range_first_def)
qed

lemma loaded_order: "iteration_order (certs loadedManager) [''example.com'']"
  by (simp add: iteration_order_def loadedManager_def)

lemma two_order_ab: "iteration_order (certs twoCertManager) [''a.example.com'', ''b.example.com'']"
  by (auto simp: iteration_order_def twoCertManager_def)

lemma two_order_ba: "iteration_order (certs twoCertManager) [''b.example.com'', ''a.example.com'']"
  by (auto simp: iteration_order_def twoCertManager_def)

section \<open>The claims about the routing table\<close>

text \<open>
  C1. Let \<open>b1\<close> be registered and later, after any operations \<open>xs\<close>, \<open>b2\<close> with
  the same path. Every request the closure of that path then serves, with any response
  writer, goes to the forwarder of \<open>b2\<close>, and so not to that of \<open>b1\<close> when the two
  differ: the closure reads the table when the request comes. The later registration
  installs nothing in the \<open>ServeMux\<close> and changes only the entry of the path; the
  first one installs the closure only if the path was not a key of the table before.
\<close>

theorem last_registration_wins:
  assumes "Path b1 = Path b2"
  shows "dispatch (apply_ops rejects ph (Add (Some b1) # xs @ [Add (Some b2)])) (Path b2) w r
           = Service_ServeHTTP b2 w r
       \<and> (ReverseProxy b1 \<noteq> ReverseProxy b2 \<longrightarrow>
            dispatch (apply_ops rejects ph (Add (Some b1) # xs @ [Add (Some b2)])) (Path b2) w r
              \<noteq> Service_ServeHTTP b1 w r)
       \<and> mux (apply_ops rejects ph (Add (Some b1) # xs @ [Add (Some b2)]))
           = mux (apply_ops rejects ph (Add (Some b1) # xs))
       \<and> proxyServers (apply_ops rejects ph (Add (Some b1) # xs @ [Add (Some b2)]))
           = (proxyServers (apply_ops rejects ph (Add (Some b1) # xs)))(Path b2 \<mapsto> Some b2)
       \<and> mux (apply_ops rejects ph [Add (Some b1)])
           = (if proxyServers ph (Path b1) = None \<and> \<not> rejects (mux ph) (Path b1)
              then mux ph @ [Path b1] else mux ph)"
proof -
  define ph1 where "ph1 = apply_op rejects ph (Add (Some b1))"
  define phm where "phm = apply_ops rejects ph1 xs"
  define ph2 where "ph2 = apply_op rejects phm (Add (Some b2))"
  have one: "apply_ops rejects ph [Add (Some b1)] = ph1"
    by (simp only: apply_ops.simps ph1_def)
  have mid: "apply_ops rejects ph (Add (Some b1) # xs) = phm"
    by (simp only: apply_ops.simps ph1_def phm_def)
  have two: "apply_ops rejects ph (Add (Some b1) # xs @ [Add (Some b2)]) = ph2"
    unfolding ph2_def phm_def ph1_def
    by (simp only: apply_ops.simps apply_ops_snoc append_Cons [symmetric])
  have "Path b2 \<in> dom (proxyServers ph1)"
    unfolding ph1_def apply_op_Add_table using assms by simp
  also have "dom (proxyServers ph1) \<subseteq> dom (proxyServers phm)"
    unfolding phm_def by (rule apply_ops_keeps_keys)
  finally have key: "proxyServers phm (Path b2) \<noteq> None"
    by blast
  have table: "proxyServers ph2 = (proxyServers phm)(Path b2 \<mapsto> Some b2)"
    unfolding ph2_def by (rule apply_op_Add_table)
  have served: "dispatch ph2 (Path b2) w r = Service_ServeHTTP b2 w r"
    by (rule dispatch_registered) (simp add: table)
  have once: "mux ph2 = mux phm"
    unfolding ph2_def apply_op_Add_mux using key by simp
  have first: "mux ph1 = (if proxyServers ph (Path b1) = None \<and> \<not> rejects (mux ph) (Path b1)
              then mux ph @ [Path b1] else mux ph)"
    unfolding ph1_def by (rule apply_op_Add_mux)
  have never: "ReverseProxy b1 \<noteq> ReverseProxy b2 \<longrightarrow>
            dispatch ph2 (Path b2) w r \<noteq> Service_ServeHTTP b1 w r"
    unfolding served by (simp add: Service_ServeHTTP_inj)
  from served never once table first show ?thesis
    unfolding one mid two by blast
qed

text \<open>
  The run of \<open>TestUpdateServiceURL\<close>: after both registrations a GET of \<open>/test/\<close>
  goes to the new backend, and the mux holds the pattern once.
\<close>

theorem last_registration_wins_witness:
  "Path oldService = Path newService
   \<and> dispatch (apply_ops mux_rejects NewRuntimeMux [Add (Some oldService), Add (Some newService)])
        ''/test/'' freshResponse getTest
       = Forwarded ''http://127.0.0.1:8082'' freshResponse getTest
   \<and> dispatch (apply_ops mux_rejects NewRuntimeMux [Add (Some oldService), Add (Some newService)])
        ''/test/'' freshResponse getTest
       \<noteq> Forwarded ''http://127.0.0.1:8081'' freshResponse getTest
   \<and> mux (apply_ops mux_rejects NewRuntimeMux [Add (Some oldService), Add (Some newService)])
       = [''/test/'']"
proof -
  have same: "Path oldService = Path newService"
    by (simp add: oldService_def newService_def)
  have m: "mux (apply_ops mux_rejects NewRuntimeMux [Add (Some oldService)]) = [''/test/'']"
    by (simp add: AddProxy_mux NewRuntimeMux_def mux_rejects_def oldService_def)
  show ?thesis
    using same m
      last_registration_wins [OF same, of mux_rejects NewRuntimeMux "[]" freshResponse getTest]
    by (simp add: Service_ServeHTTP_def oldService_def newService_def)
qed

text \<open>
  C2. In every state that registrations and deregistrations reach from
  \<open>NewRuntimeMux\<close>, a request served by the closure of a path whose entry is absent
  or nil gets the fallback response, written to a response nothing was written to yet:
  status 200 and the body \<open>fallback: Path not found\<close> followed by the path of the
  request. It is a response, not a panic and not an error status.
\<close>

theorem dispatch_fallback:
  assumes "proxyServers (apply_ops rejects NewRuntimeMux xs) path = None
           \<or> proxyServers (apply_ops rejects NewRuntimeMux xs) path = Some None"
    and "\<not> wroteHeader w"
  shows "dispatch (apply_ops rejects NewRuntimeMux xs) path w r =
           Responded (w\<lparr>wroteHeader := True, status := 200,
                        body := body w @ ''fallback: Path not found'' @ URL_Path r\<rparr>)"
proof -
  have "FallbackHandler (apply_ops rejects NewRuntimeMux xs) w r =
          Responded (Write w (''fallback: Path not found'' @ URL_Path r))"
    by (simp add: apply_ops_FallbackHandler NewRuntimeMux_def)
  with assms show ?thesis
    by (auto simp: dispatch_def Write_def)
qed

text \<open>The run of \<open>TestFallbackHandler\<close>: the service is registered, then removed.\<close>

theorem dispatch_fallback_witness:
  "proxyServers (apply_ops mux_rejects NewRuntimeMux [Add (Some oldService), Remove (Some oldService)])
      ''/test/'' = Some None
   \<and> \<not> wroteHeader freshResponse
   \<and> dispatch (apply_ops mux_rejects NewRuntimeMux [Add (Some oldService), Remove (Some oldService)])
        ''/test/'' freshResponse getTest
       = Responded \<lparr>wroteHeader = True, status = 200, body = ''fallback: Path not found/test/''\<rparr>"
proof -
  have tomb: "proxyServers (apply_ops mux_rejects NewRuntimeMux
                 [Add (Some oldService), Remove (Some oldService)]) ''/test/'' = Some None"
    by (simp add: removeHandler_table oldService_def)
  have fresh: "\<not> wroteHeader freshResponse"
    by (simp add: freshResponse_def)
  show ?thesis
    using tomb fresh dispatch_fallback [OF disjI2 [OF tomb] fresh, of getTest]
    by (simp add: freshResponse_def getTest_def)
qed

text \<open>
  C6, as the code has it. Whatever parser stands for \<open>url.Parse\<close>: when it rejects
  the URL, \<open>NewService\<close> fails, the \<open>add\<close> command reports the error, and the
  state, the table with it, is what it was.
\<close>

theorem add_fails_when_url_Parse_fails:
  assumes "url_Parse url = Inl err"
  shows "NewService url_Parse name path url = Inl (Service_URL_invalid err)
       \<and> CLI_add url_Parse rejects ph [''add'', name, path, url]
           = (Returned (Error_creating_service (Service_URL_invalid err)), ph)"
  using assms by (simp add: NewService_def CLI_add_def)

text \<open>The URL of \<open>TestInvalidURL\<close>, which \<open>url.Parse\<close> rejects.\<close>

theorem add_fails_when_url_Parse_fails_witness:
  "net_url_Parse ''--calhost-:=-8080/''
     = Inl (Error ''parse'' ''--calhost-:=-8080/'' First_path_segment_colon)
   \<and> CLI_add net_url_Parse mux_rejects NewRuntimeMux
         [''add'', ''test'', ''/test'', ''--calhost-:=-8080/'']
       = (Returned (Error_creating_service (Service_URL_invalid
            (Error ''parse'' ''--calhost-:=-8080/'' First_path_segment_colon))), NewRuntimeMux)"
  using parse_calhost
    add_fails_when_url_Parse_fails [where url_Parse = net_url_Parse
      and url = "''--calhost-:=-8080/''" and name = "''test''" and path = "''/test''"
      and rejects = mux_rejects and ph = NewRuntimeMux, OF parse_calhost]
  by simp

text \<open>
  C6 as the claim states it fails: \<open>localhost\<close> has no scheme, so it is a relative
  reference and no absolute URL, yet \<open>url.Parse\<close> accepts it, and
  \<open>add svc /svc localhost\<close> on the empty table reports success and registers the
  service.
\<close>

theorem add_registers_relative_url:
  "net_url_Parse ''localhost'' = Inr (new_URL\<lparr>url_Path := ''localhost''\<rparr>)
   \<and> \<not> IsAbs (new_URL\<lparr>url_Path := ''localhost''\<rparr>)
   \<and> fst (CLI_add net_url_Parse mux_rejects NewRuntimeMux [''add'', ''svc'', ''/svc'', ''localhost''])
       = Returned (Added_service ''svc'' ''/svc'')
   \<and> proxyServers (NewRuntimeMux :: URL RuntimeMux) ''/svc'' = None
   \<and> proxyServers
         (snd (CLI_add net_url_Parse mux_rejects NewRuntimeMux [''add'', ''svc'', ''/svc'', ''localhost'']))
         ''/svc''
       = Some (Some \<lparr>Name = ''svc'', ReverseProxy = Some (new_URL\<lparr>url_Path := ''localhost''\<rparr>),
                      Path = ''/svc'', Url = ''localhost''\<rparr>)"
proof -
  let ?s = "\<lparr>Name = ''svc'', ReverseProxy = Some (new_URL\<lparr>url_Path := ''localhost''\<rparr>),
                      Path = ''/svc'', Url = ''localhost''\<rparr>"
  have svc: "NewService net_url_Parse ''svc'' ''/svc'' ''localhost'' = Inr ?s"
    by (simp add: NewService_def parse_localhost)
  have add: "AddProxy mux_rejects NewRuntimeMux (Some ?s)
     = (Returned None, NewRuntimeMux\<lparr>proxyServers := [''/svc'' \<mapsto> Some ?s], mux := [''/svc'']\<rparr>)"
    by (simp add: AddProxy_def HandleFunc_def mux_rejects_def NewRuntimeMux_def)
  have cli: "CLI_add net_url_Parse mux_rejects NewRuntimeMux [''add'', ''svc'', ''/svc'', ''localhost'']
     = (Returned (Added_service ''svc'' ''/svc''),
        NewRuntimeMux\<lparr>proxyServers := [''/svc'' \<mapsto> Some ?s], mux := [''/svc'']\<rparr>)"
    by (simp add: CLI_add_def svc add)
  have rel: "\<not> IsAbs (new_URL\<lparr>url_Path := ''localhost''\<rparr>)"
    by (simp add: IsAbs_def new_URL_def)
  show ?thesis
    unfolding cli by (simp add: parse_localhost rel) (simp add: NewRuntimeMux_def)
qed

text \<open>
  C7, as the code has it. \<open>AddProxy\<close> has no error to return: a call ends in a panic
  or returns nil. It panics on a nil \<open>*Service\<close>, which leaves the state as it was,
  and when the path is not yet a key of the table and the \<open>ServeMux\<close> rejects it as
  a pattern; in every other case it returns nil, whatever the path and the backend are.
  For a \<open>*Service\<close> that is not nil the state it leaves has the service written to
  the entry of its path, also when the call panics, and the pattern added to the mux
  exactly when the path was no key and the mux accepts it.
\<close>

theorem AddProxy_panics_or_succeeds:
  "(fst (AddProxy rejects ph so) :: 'e error option outcome) =
     (case so of
        None \<Rightarrow> Panicked
      | Some s \<Rightarrow>
          if proxyServers ph (Path s) = None \<and> rejects (mux ph) (Path s) then Panicked
          else Returned None)
   \<and> fst (AddProxy rejects ph so) \<noteq> Returned (Some err)
   \<and> snd (AddProxy rejects ph so :: 'e error option outcome \<times> 'u RuntimeMux) =
       (case so of
          None \<Rightarrow> ph
        | Some s \<Rightarrow>
            ph\<lparr>proxyServers := (proxyServers ph)(Path s \<mapsto> Some s),
               mux := (if proxyServers ph (Path s) = None \<and> \<not> rejects (mux ph) (Path s)
                       then mux ph @ [Path s] else mux ph)\<rparr>)"
proof (intro conjI)
  show "(fst (AddProxy rejects ph so) :: 'e error option outcome) =
     (case so of
        None \<Rightarrow> Panicked
      | Some s \<Rightarrow>
          if proxyServers ph (Path s) = None \<and> rejects (mux ph) (Path s) then Panicked
          else Returned None)"
    by (rule AddProxy_result)
  show "fst (AddProxy rejects ph so) \<noteq> Returned (Some err)"
    unfolding AddProxy_result by (simp split: option.split)
  show "snd (AddProxy rejects ph so :: 'e error option outcome \<times> 'u RuntimeMux) =
       (case so of
          None \<Rightarrow> ph
        | Some s \<Rightarrow>
            ph\<lparr>proxyServers := (proxyServers ph)(Path s \<mapsto> Some s),
               mux := (if proxyServers ph (Path s) = None \<and> \<not> rejects (mux ph) (Path s)
                       then mux ph @ [Path s] else mux ph)\<rparr>)"
    by (simp add: AddProxy_def HandleFunc_def Let_def split: option.split)
qed

text \<open>
  C7 as the claim states it fails: a service with the empty path is registered with
  success once the empty path is a key of the table (here after \<open>removeHandler\<close> made
  it one), and so is a \<open>Service\<close> with no forwarder.
\<close>

theorem AddProxy_accepts_empty_prefix:
  "Path emptyPathService = []
   \<and> fst (AddProxy mux_rejects (apply_ops mux_rejects NewRuntimeMux [Remove (Some emptyPathService)])
            (Some emptyPathService)) = (Returned None :: unit error option outcome)
   \<and> ReverseProxy noForwarderService = None
   \<and> fst (AddProxy mux_rejects NewRuntimeMux (Some noForwarderService))
       = (Returned None :: unit error option outcome)"
  by (simp add: AddProxy_result removeHandler_table emptyPathService_def noForwarderService_def
      NewRuntimeMux_def mux_rejects_def)

text \<open>
  C8 fails on the code. On the table of \<open>NewRuntimeMux\<close>, where \<open>/test/\<close> was never
  registered, \<open>removeHandler\<close> makes \<open>/test/\<close> a key bound to nil: the table is not
  what it was. A registration of \<open>/test/\<close> that follows finds the key and installs no
  handler, where the same registration on the untouched table installs one.
\<close>

theorem removeHandler_unregistered_adds_key:
  "proxyServers (NewRuntimeMux :: string RuntimeMux) ''/test/'' = None
   \<and> proxyServers (snd (removeHandler NewRuntimeMux (Some oldService))) ''/test/'' = Some None
   \<and> proxyServers (snd (removeHandler NewRuntimeMux (Some oldService)))
       \<noteq> proxyServers (NewRuntimeMux :: string RuntimeMux)
   \<and> mux (apply_ops mux_rejects NewRuntimeMux [Add (Some oldService)]) = [''/test/'']
   \<and> mux (apply_ops mux_rejects NewRuntimeMux [Remove (Some oldService), Add (Some oldService)]) = []"
proof -
  have a: "proxyServers (NewRuntimeMux :: string RuntimeMux) ''/test/'' = None"
    by (simp add: NewRuntimeMux_def)
  have b: "proxyServers (snd (removeHandler NewRuntimeMux (Some oldService))) ''/test/'' = Some None"
    by (simp add: removeHandler_table oldService_def)
  from a b have c: "proxyServers (snd (removeHandler NewRuntimeMux (Some oldService)))
       \<noteq> proxyServers (NewRuntimeMux :: string RuntimeMux)"
    by (metis option.distinct(1))
  have d: "mux (apply_ops mux_rejects NewRuntimeMux [Add (Some oldService)]) = [''/test/'']"
    by (simp add: AddProxy_mux NewRuntimeMux_def mux_rejects_def oldService_def)
  have e: "mux (apply_ops mux_rejects NewRuntimeMux [Remove (Some oldService), Add (Some oldService)]) = []"
    by (simp add: AddProxy_mux removeHandler_table removeHandler_def NewRuntimeMux_def)
  from a b c d e show ?thesis by blast
qed

text \<open>
  C10. Whatever registrations and deregistrations follow, the table keeps every key it
  has: the keys after a sequence \<open>xs\<close> are still keys after any longer sequence
  \<open>xs @ ys\<close>. \<open>AddProxy\<close> makes the path a key, and \<open>removeHandler\<close> leaves it
  a key, bound to nil.
\<close>

theorem proxyServers_never_loses_a_key:
  "dom (proxyServers (apply_ops rejects ph xs))
     \<subseteq> dom (proxyServers (apply_ops rejects ph (xs @ ys)))
   \<and> Path s \<in> dom (proxyServers (apply_op rejects ph (Add (Some s))))
   \<and> proxyServers (apply_op rejects ph (Remove (Some s))) (Path s) = Some None"
proof (intro conjI)
  show "dom (proxyServers (apply_ops rejects ph xs))
          \<subseteq> dom (proxyServers (apply_ops rejects ph (xs @ ys)))"
    unfolding apply_ops_append by (rule apply_ops_keeps_keys)
  show "Path s \<in> dom (proxyServers (apply_op rejects ph (Add (Some s))))"
    by (simp add: AddProxy_table)
  show "proxyServers (apply_op rejects ph (Remove (Some s))) (Path s) = Some None"
    by (simp add: removeHandler_table)
qed

section \<open>The claims about the certificate store\<close>

text \<open>
  C3. If the pair of files cannot be loaded, or it is loaded and its leaf certificate
  cannot be parsed, \<open>loadCertificate\<close> returns an error and the manager, its map
  \<open>certs\<close> with it, is exactly what it was.
\<close>

theorem loadCertificate_failure_keeps_certs:
  assumes "(\<exists>err. LoadX509KeyPair (certFile cm) (keyFile cm) = Inl err)
         \<or> (\<exists>cert err. LoadX509KeyPair (certFile cm) (keyFile cm) = Inr cert
               \<and> Certificate cert \<noteq> []
               \<and> ParseCertificate (Certificate cert ! 0) = Inl err)"
  shows "\<exists>err. loadCertificate LoadX509KeyPair ParseCertificate cm = (Some err, cm)"
  using assms
proof (elim disjE exE conjE)
  fix err
  assume "LoadX509KeyPair (certFile cm) (keyFile cm) = Inl err"
  then show ?thesis
    by (simp add: loadCertificate_unreadable)
next
  fix cert err
  assume "LoadX509KeyPair (certFile cm) (keyFile cm) = Inr cert" "Certificate cert \<noteq> []"
    "ParseCertificate (Certificate cert ! 0) = Inl err"
  then show ?thesis
    by (simp add: loadCertificate_unparsable)
qed

text \<open>
  The second half of \<open>TestLoadCertificate\<close>: the certificate file is
  \<open>nonexistent.pem\<close>, and the entry of the earlier load stays.
\<close>

theorem loadCertificate_failure_keeps_certs_witness:
  "testLoadX509KeyPair (certFile loadedManager) (keyFile loadedManager)
     = Inl ''no such file or directory''
   \<and> (\<exists>err. loadCertificate testLoadX509KeyPair testParseCertificate loadedManager
               = (Some err, loadedManager))
   \<and> certs loadedManager ''example.com'' = Some exampleCert"
proof -
  have unreadable: "testLoadX509KeyPair (certFile loadedManager) (keyFile loadedManager)
     = Inl ''no such file or directory''"
    by (simp add: testLoadX509KeyPair_def loadedManager_def)
  then have "\<exists>err. testLoadX509KeyPair (certFile loadedManager) (keyFile loadedManager) = Inl err"
    by blast
  from loadCertificate_failure_keeps_certs [where LoadX509KeyPair = testLoadX509KeyPair
      and ParseCertificate = testParseCertificate and cm = loadedManager, OF disjI1, OF this]
    unreadable
  show ?thesis
    by (simp add: loadedManager_def)
qed

text \<open>
  C4. With \<open>iter\<close> the order in which the loop visits the keys: a server name that is
  a key of \<open>certs\<close> gets the certificate stored under it; any other server name gets
  a certificate of the map, and no error, when the map is not empty; and
  \<open>GetCertificate\<close> returns an error exactly when the map is empty, the error
  \<open>no certificate found for\<close> the server name.
\<close>

theorem GetCertificate_resolves:
  assumes "iteration_order (certs cm) iter"
  shows "(\<forall>cert. certs cm (ServerName clientHello) = Some cert \<longrightarrow>
            GetCertificate iter cm clientHello = Inr cert)
       \<and> (certs cm (ServerName clientHello) = None \<and> certs cm \<noteq> Map.empty \<longrightarrow>
            (\<exists>k cert. certs cm k = Some cert \<and> GetCertificate iter cm clientHello = Inr cert))
       \<and> ((\<exists>err. GetCertificate iter cm clientHello = Inl err) = (certs cm = Map.empty))
       \<and> (certs cm = Map.empty \<longrightarrow>
            GetCertificate iter cm clientHello
              = Inl (''no certificate found for '' @ ServerName clientHello))"
proof (intro conjI allI impI)
  fix cert
  assume "certs cm (ServerName clientHello) = Some cert"
  then show "GetCertificate iter cm clientHello = Inr cert"
    by (simp add: GetCertificate_def)
next
  assume "certs cm (ServerName clientHello) = None \<and> certs cm \<noteq> Map.empty"
  with range_first_Some [OF assms]
  show "\<exists>k cert. certs cm k = Some cert \<and> GetCertificate iter cm clientHello = Inr cert"
    by (fastforce simp: GetCertificate_def)
next
  show "(\<exists>err. GetCertificate iter cm clientHello = Inl err) = (certs cm = Map.empty)"
  proof (cases "certs cm (ServerName clientHello)")
    case None
    then show ?thesis
      using range_first_None [OF assms]
      by (auto simp: GetCertificate_def split: option.splits)
  next
    case (Some cert)
    then have "certs cm \<noteq> Map.empty"
      by auto
    with Some show ?thesis
      by (simp add: GetCertificate_def)
  qed
next
  assume "certs cm = Map.empty"
  then show "GetCertificate iter cm clientHello
               = Inl (''no certificate found for '' @ ServerName clientHello)"
    by (simp add: GetCertificate_def range_first_def)
qed

text \<open>
  The cases of \<open>TestGetCertificate\<close>: the matching domain and \<open>other.com\<close>, on a
  manager holding the certificate of \<open>example.com\<close>.
\<close>

theorem GetCertificate_resolves_witness:
  "iteration_order (certs loadedManager) [''example.com'']
   \<and> certs loadedManager ''example.com'' = Some exampleCert
   \<and> GetCertificate [''example.com''] loadedManager \<lparr>ServerName = ''example.com''\<rparr>
       = Inr exampleCert
   \<and> certs loadedManager ''other.com'' = None
   \<and> certs loadedManager \<noteq> Map.empty
   \<and> (\<exists>k cert. certs loadedManager k = Some cert
         \<and> GetCertificate [''example.com''] loadedManager \<lparr>ServerName = ''other.com''\<rparr>
             = Inr cert)"
proof -
  have exact: "certs loadedManager ''example.com'' = Some exampleCert"
    by (simp add: loadedManager_def)
  have other: "certs loadedManager ''other.com'' = None"
    by (simp add: loadedManager_def)
  from exact have nonempty: "certs loadedManager \<noteq> Map.empty"
    by auto
  from GetCertificate_resolves [OF loaded_order, of "\<lparr>ServerName = ''example.com''\<rparr>"] exact
  have a: "GetCertificate [''example.com''] loadedManager \<lparr>ServerName = ''example.com''\<rparr>
       = Inr exampleCert"
    by simp
  from GetCertificate_resolves [OF loaded_order, of "\<lparr>ServerName = ''other.com''\<rparr>"] other nonempty
  have b: "\<exists>k cert. certs loadedManager k = Some cert
         \<and> GetCertificate [''example.com''] loadedManager \<lparr>ServerName = ''other.com''\<rparr>
             = Inr cert"
    by simp
  from loaded_order exact a other nonempty b show ?thesis
    by blast
qed

text \<open>
  C5, as the code has it. When the map is not empty and the server name is not a key,
  \<open>GetCertificate\<close> returns the certificate of the key its loop visits first: the same
  map, server name and order of visit give the same certificate.
\<close>

theorem GetCertificate_first_visited:
  assumes "iteration_order (certs cm) iter"
    and "certs cm (ServerName clientHello) = None"
    and "certs cm \<noteq> Map.empty"
  shows "\<exists>k rest cert. iter = k # rest \<and> certs cm k = Some cert
           \<and> GetCertificate iter cm clientHello = Inr cert"
  using range_first_Some [OF assms(1) assms(3)] assms(2)
  by (fastforce simp: GetCertificate_def)

text \<open>Two certificates, visited \<open>b.example.com\<close> first.\<close>

theorem GetCertificate_first_visited_witness:
  "iteration_order (certs twoCertManager) [''b.example.com'', ''a.example.com'']
   \<and> certs twoCertManager ''other.com'' = None
   \<and> certs twoCertManager \<noteq> Map.empty
   \<and> certs twoCertManager ''b.example.com'' = Some certB
   \<and> GetCertificate [''b.example.com'', ''a.example.com''] twoCertManager \<lparr>ServerName = ''other.com''\<rparr>
       = Inr certB"
proof -
  have none: "certs twoCertManager (ServerName \<lparr>ServerName = ''other.com''\<rparr>) = None"
    by (simp add: twoCertManager_def)
  have b: "certs twoCertManager ''b.example.com'' = Some certB"
    by (simp add: twoCertManager_def)
  then have nonempty: "certs twoCertManager \<noteq> Map.empty"
    by auto
  from GetCertificate_first_visited [OF two_order_ba none nonempty] b none nonempty two_order_ba
  show ?thesis
    by auto
qed

text \<open>
  C5 as the claim states it fails: on one and the same map of two certificates and for
  the same server name, which is no key, the two orders in which Go may visit the keys
  give two different certificates.
\<close>

theorem GetCertificate_depends_on_iteration_order:
  "iteration_order (certs twoCertManager) [''a.example.com'', ''b.example.com'']
   \<and> iteration_order (certs twoCertManager) [''b.example.com'', ''a.example.com'']
   \<and> certs twoCertManager ''other.com'' = None
   \<and> GetCertificate [''a.example.com'', ''b.example.com''] twoCertManager \<lparr>ServerName = ''other.com''\<rparr>
       = Inr certA
   \<and> GetCertificate [''b.example.com'', ''a.example.com''] twoCertManager \<lparr>ServerName = ''other.com''\<rparr>
       = Inr certB
   \<and> certA \<noteq> certB"
proof -
  have none: "certs twoCertManager ''other.com'' = None"
    by (simp add: twoCertManager_def)
  have ab: "GetCertificate [''a.example.com'', ''b.example.com''] twoCertManager \<lparr>ServerName = ''other.com''\<rparr>
       = Inr certA"
    by (simp add: GetCertificate_def range_first_def twoCertManager_def)
  have ba: "GetCertificate [''b.example.com'', ''a.example.com''] twoCertManager \<lparr>ServerName = ''other.com''\<rparr>
       = Inr certB"
    by (simp add: GetCertificate_def range_first_def twoCertManager_def)
  have differ: "certA \<noteq> certB"
    by (simp add: certA_def certB_def)
  from two_order_ab two_order_ba none ab ba differ show ?thesis
    by blast
qed

text \<open>
  C9. Let \<open>loadCertificate\<close> succeed on a pair that \<open>LoadX509KeyPair\<close> loaded with a
  leaf certificate (a non-empty chain, which is all \<open>tls.LoadX509KeyPair\<close> returns).
  Then the leaf was parsed, and the new map is the old one with the pair stored under
  the first DNS name of the leaf, or under its common name when it has no DNS name: that
  entry is there, the entry of every other host name is what it was, and the file names
  are unchanged.
\<close>

theorem loadCertificate_success:
  assumes ok: "loadCertificate LoadX509KeyPair ParseCertificate cm = (None, cm')"
    and loaded: "LoadX509KeyPair (certFile cm) (keyFile cm) = Inr cert"
    and leaf: "Certificate cert \<noteq> []"
  shows "\<exists>x509Cert domain.
           ParseCertificate (Certificate cert ! 0) = Inr x509Cert
         \<and> domain = (if DNSNames x509Cert \<noteq> [] then DNSNames x509Cert ! 0
                     else Subject_CommonName x509Cert)
         \<and> certs cm' = (certs cm)(domain \<mapsto> cert)
         \<and> certs cm' domain = Some cert
         \<and> (\<forall>h. h \<noteq> domain \<longrightarrow> certs cm' h = certs cm h)
         \<and> certFile cm' = certFile cm \<and> keyFile cm' = keyFile cm"
proof (cases "ParseCertificate (Certificate cert ! 0)")
  case (Inl err)
  with ok loaded leaf show ?thesis
    by (simp add: loadCertificate_unparsable)
next
  case (Inr x509Cert)
  from loadCertificate_loaded [where LoadX509KeyPair = LoadX509KeyPair
      and ParseCertificate = ParseCertificate, OF loaded leaf Inr] ok
  have "cm' = cm\<lparr>certs := (certs cm)((if DNSNames x509Cert \<noteq> [] then DNSNames x509Cert ! 0
                                         else Subject_CommonName x509Cert) \<mapsto> cert)\<rparr>"
    by simp
  with Inr show ?thesis
    by simp
qed

text \<open>The first half of \<open>TestLoadCertificate\<close>: the pair of \<open>example.com\<close> is loaded.\<close>

theorem loadCertificate_success_witness:
  "loadCertificate testLoadX509KeyPair testParseCertificate emptyManager
     = (None, emptyManager\<lparr>certs := [''example.com'' \<mapsto> exampleCert]\<rparr>)
   \<and> testLoadX509KeyPair (certFile emptyManager) (keyFile emptyManager) = Inr exampleCert
   \<and> Certificate exampleCert \<noteq> []
   \<and> testParseCertificate (Certificate exampleCert ! 0)
       = Inr \<lparr>DNSNames = [''example.com''], Subject_CommonName = ''example.com''\<rparr>
   \<and> certs (emptyManager\<lparr>certs := [''example.com'' \<mapsto> exampleCert]\<rparr>) ''example.com''
       = Some exampleCert"
proof -
  have ok: "loadCertificate testLoadX509KeyPair testParseCertificate emptyManager
     = (None, emptyManager\<lparr>certs := [''example.com'' \<mapsto> exampleCert]\<rparr>)"
    by (simp add: loadCertificate_def testLoadX509KeyPair_def testParseCertificate_def
        emptyManager_def exampleCert_def)
  have loaded: "testLoadX509KeyPair (certFile emptyManager) (keyFile emptyManager) = Inr exampleCert"
    by (simp add: testLoadX509KeyPair_def emptyManager_def)
  have leaf: "Certificate exampleCert \<noteq> []"
    by (simp add: exampleCert_def)
  have parsed: "testParseCertificate (Certificate exampleCert ! 0)
       = Inr \<lparr>DNSNames = [''example.com''], Subject_CommonName = ''example.com''\<rparr>"
    by (simp add: testParseCertificate_def exampleCert_def)
  from loadCertificate_success [OF ok loaded leaf] ok loaded leaf parsed
  show ?thesis
    by auto
qed

end
